theory Spec2Isabelle
  imports Main
begin

section \<open>The cache layer of \<open>server/lib/cache/index.js\<close>\<close>

text \<open>
  The module is asynchronous JavaScript. The embedding keeps apart the two ways in which a
  JavaScript call can fail, because the source's \<open>try\<close>/\<open>catch\<close> blocks and its calls
  without \<open>await\<close> treat them differently:
  \<^item> a call expression either throws synchronously, or returns a plain value, or returns a
    promise (\<open>outcome\<close>);
  \<^item> a promise is taken in its settled state, fulfilled with a value or rejected with an
    error (\<open>promise\<close>); promises that never settle are outside the model.

  Calls are run one at a time: a call that the source does not \<open>await\<close> is carried out at the
  point where it is issued and its result is dropped. The provider, the memoized function and
  the external collaborators act on three separate parts of the state, and each part keeps
  its own log, so that the model fixes the order of the calls inside one part only.
\<close>

subsection \<open>Values, errors, promises\<close>

datatype jsval =
    JUndefined
  | JNull
  | JBool bool
  | JNum int
  | JStr string
  | JArr "jsval list"
  | JObj "(string \<times> jsval) list"

text \<open>The truth value of \<open>if (v)\<close> and \<open>!v\<close>.\<close>

fun truthy :: "jsval \<Rightarrow> bool" where
  "truthy JUndefined = False"
| "truthy JNull = False"
| "truthy (JBool b) = b"
| "truthy (JNum n) = (n \<noteq> 0)"
| "truthy (JStr s) = (s \<noteq> [])"
| "truthy (JArr xs) = True"
| "truthy (JObj kvs) = True"

datatype jserr = Error (message: string) | TypeError (message: string)

datatype 'v promise = Fulfilled 'v | Rejected jserr

datatype 'v outcome = Throws jserr | Plain 'v | Thenable "'v promise"

text \<open>
  The body of an \<open>async\<close> function that ends in \<open>return e\<close> outside any \<open>try\<close>: a
  synchronous throw of \<open>e\<close> rejects the function's promise, a plain value fulfils it, and a
  returned promise is adopted as it is.
\<close>

fun async_return :: "'v outcome \<Rightarrow> 'v promise" where
  "async_return (Throws err) = Rejected err"
| "async_return (Plain v) = Fulfilled v"
| "async_return (Thenable p) = p"

text \<open>\<open>await e\<close>: the error (\<open>Inl\<close>) is thrown at the \<open>await\<close>, the value (\<open>Inr\<close>) is its result.\<close>

fun await :: "'v outcome \<Rightarrow> jserr + 'v" where
  "await (Throws err) = Inl err"
| "await (Plain v) = Inr v"
| "await (Thenable (Fulfilled v)) = Inr v"
| "await (Thenable (Rejected err)) = Inl err"

text \<open>Calling an \<open>async\<close> function never throws: the call returns the function's promise.\<close>

definition call_async :: "'v promise \<Rightarrow> 'v outcome" where
  "call_async p = Thenable p"

fun throws_synchronously :: "'v outcome \<Rightarrow> bool" where
  "throws_synchronously (Throws err) = True"
| "throws_synchronously (Plain v) = False"
| "throws_synchronously (Thenable p) = False"

text \<open>
  A call whose result the source drops (a statement \<open>f(x);\<close>): only a synchronous throw
  shows; a promise it returns, rejected or not, is not looked at.
\<close>

fun dropped :: "'v outcome \<Rightarrow> jserr option" where
  "dropped (Throws err) = Some err"
| "dropped (Plain v) = None"
| "dropped (Thenable p) = None"

subsection \<open>Providers, collaborators and the module state\<close>

text \<open>
  An options object with its properties \<open>serialize\<close> and \<open>unserialize\<close>, in this order
  (\<open>None\<close> for a property that is missing or undefined); \<open>'f\<close> is the type of the transforms.
\<close>

datatype 'f options = Options "'f option" "'f option"

text \<open>
  A provider is the object the factories return. The three factories are not part of this
  file, so a provider is a parameter: five operations on a store of type \<open>'s\<close>. An options
  argument that the caller leaves out is \<open>None\<close>.
\<close>

record ('s, 'f) provider =
  provider_clear :: "'s \<Rightarrow> jsval outcome \<times> 's"
  provider_delete :: "jsval \<Rightarrow> 's \<Rightarrow> jsval outcome \<times> 's"
  provider_get :: "jsval \<Rightarrow> 'f options option \<Rightarrow> 's \<Rightarrow> jsval outcome \<times> 's"
  provider_has :: "jsval \<Rightarrow> 's \<Rightarrow> jsval outcome \<times> 's"
  provider_set :: "jsval \<Rightarrow> jsval \<Rightarrow> jsval \<Rightarrow> 'f options option \<Rightarrow> 's \<Rightarrow> jsval outcome \<times> 's"

text \<open>
  What the module imports: \<open>config\<close> read through lodash \<open>get\<close> (\<open>config_get\<close>, by path),
  the string conversion of a template literal (\<open>toString\<close>), \<open>JSON.stringify\<close> of an
  \<open>arguments\<close> object, \<open>md5\<close>, the provider factories, and the two purge collaborators,
  which act on the application state \<open>'a\<close>.
\<close>

record ('s, 'f, 'a) env =
  config_get :: "string \<Rightarrow> jsval"
  toString :: "jsval \<Rightarrow> string"
  JSON_stringify :: "jsval list \<Rightarrow> string"
  md5 :: "string \<Rightarrow> string"
  makeMemcacheProvider :: "jsval \<Rightarrow> ('s, 'f) provider outcome"
  makeMemoryProvider :: "nat \<Rightarrow> ('s, 'f) provider outcome"
  makeRedisProvider :: "('s, 'f) provider outcome"
  purgeCacheForPage :: "string \<Rightarrow> 'a \<Rightarrow> jsval outcome \<times> 'a"
  invalidateContributorsCache :: "jsval \<Rightarrow> 'a \<Rightarrow> jsval outcome \<times> 'a"

datatype 'f pcall =
    PClear
  | PDelete jsval
  | PGet jsval "'f options option"
  | PHas jsval
  | PSet jsval jsval jsval "'f options option"

datatype step =
    PurgeCacheForPage string
  | PurgeGraphqlCacheForCollective string
  | InvalidateContributorsCache jsval

text \<open>
  The state: the module variable \<open>defaultProvider\<close> (\<open>None\<close> while it is still undefined), the
  provider's store, the application state, the lines written with \<open>logger.warn\<close>, and four
  logs that record what was called: \<open>getProvider\<close> (\<open>resolutions\<close>), the operations of the
  provider, the memoized function, and the purge steps that were started.
\<close>

record ('s, 'f, 'a) world =
  defaultProvider :: "('s, 'f) provider promise option"
  store :: 's
  app :: 'a
  warnings :: "string list"
  resolutions :: "jsval list"
  provider_calls :: "'f pcall list"
  func_calls :: "jsval list list"
  purge_steps :: "step list"

definition logger_warn :: "string \<Rightarrow> ('s, 'f, 'a) world \<Rightarrow> ('s, 'f, 'a) world" where
  "logger_warn msg w = w\<lparr>warnings := warnings w @ [msg]\<rparr>"

subsection \<open>Provider resolution\<close>

definition MEMCACHE :: string where "MEMCACHE = ''MEMCACHE''"
definition MEMORY :: string where "MEMORY = ''MEMORY''"
definition REDIS :: string where "REDIS = ''REDIS''"

definition getProvider :: "('s, 'f, 'a) env \<Rightarrow> jsval \<Rightarrow> ('s, 'f) provider promise" where
  "getProvider env providerType = async_return
     (if providerType = JStr MEMCACHE then makeMemcacheProvider env (config_get env ''memcache'')
      else if providerType = JStr REDIS then makeRedisProvider env
      else if providerType = JStr MEMORY then makeMemoryProvider env 1000
      else Throws (Error (''Unsupported cache provider: '' @ toString env providerType)))"

definition getDefaultProviderType :: "('s, 'f, 'a) env \<Rightarrow> string" where
  "getDefaultProviderType env =
     (if truthy (config_get env ''redis.serverUrl'') then REDIS
      else if truthy (config_get env ''memcache.servers'') then MEMCACHE
      else MEMORY)"

text \<open>
  \<open>getProvider\<close> is \<open>async\<close>, so what it returns is a promise and \<open>!defaultProvider\<close> is
  false from the first call on, also when that promise is rejected.
\<close>

definition getDefaultProvider ::
  "('s, 'f, 'a) env \<Rightarrow> ('s, 'f, 'a) world \<Rightarrow> ('s, 'f) provider promise \<times> ('s, 'f, 'a) world" where
  "getDefaultProvider env w =
     (let defaultProviderType = JStr (getDefaultProviderType env) in
      case defaultProvider w of
        None \<Rightarrow>
          (let p = getProvider env defaultProviderType in
           (p, w\<lparr>defaultProvider := Some p, resolutions := resolutions w @ [defaultProviderType]\<rparr>))
      | Some p \<Rightarrow> (p, w))"

subsection \<open>The facade\<close>

text \<open>
  The five methods of \<open>cache\<close> have one shape:
  \<^verbatim>\<open>try { const provider = await getDefaultProvider(); return provider.op(...); }
  catch (err) { logger.warn(`<what>${err.message}`); }\<close>
  The \<open>await\<close> is inside the \<open>try\<close>, so a rejected provider promise is caught. The call
  \<open>provider.op(...)\<close> is inside it too, so a synchronous throw is caught. Its result is
  returned without \<open>await\<close>: a promise that the provider returns settles the method's own
  promise after the \<open>try\<close> block has been left. After \<open>catch\<close> the method returns
  \<open>undefined\<close>. (The calls of \<open>debugCache\<close> only trace and are left out.)
\<close>

definition guarded ::
  "string \<Rightarrow> 'f pcall \<Rightarrow> (('s, 'f) provider \<Rightarrow> 's \<Rightarrow> jsval outcome \<times> 's) \<Rightarrow>
   ('s, 'f, 'a) env \<Rightarrow> ('s, 'f, 'a) world \<Rightarrow> jsval promise \<times> ('s, 'f, 'a) world" where
  "guarded what c op env w =
     (case getDefaultProvider env w of (p, w1) \<Rightarrow>
        (case p of
           Rejected err \<Rightarrow> (Fulfilled JUndefined, logger_warn (what @ message err) w1)
         | Fulfilled provider \<Rightarrow>
             (case op provider (store w1) of (r, s) \<Rightarrow>
                (let w2 = w1\<lparr>store := s, provider_calls := provider_calls w1 @ [c]\<rparr> in
                 case r of
                   Throws err \<Rightarrow> (Fulfilled JUndefined, logger_warn (what @ message err) w2)
                 | Plain v \<Rightarrow> (Fulfilled v, w2)
                 | Thenable q \<Rightarrow> (q, w2)))))"

definition cache_clear ::
  "('s, 'f, 'a) env \<Rightarrow> ('s, 'f, 'a) world \<Rightarrow> jsval promise \<times> ('s, 'f, 'a) world" where
  "cache_clear env w =
     guarded ''Error while clearing cache: '' PClear (\<lambda>provider. provider_clear provider) env w"

definition cache_delete ::
  "('s, 'f, 'a) env \<Rightarrow> jsval \<Rightarrow> ('s, 'f, 'a) world \<Rightarrow> jsval promise \<times> ('s, 'f, 'a) world" where
  "cache_delete env key w =
     guarded ''Error while deleting from cache: '' (PDelete key)
       (\<lambda>provider. provider_delete provider key) env w"

definition cache_get ::
  "('s, 'f, 'a) env \<Rightarrow> jsval \<Rightarrow> 'f options option \<Rightarrow> ('s, 'f, 'a) world \<Rightarrow>
   jsval promise \<times> ('s, 'f, 'a) world" where
  "cache_get env key opts w =
     guarded ''Error while fetching from cache: '' (PGet key opts)
       (\<lambda>provider. provider_get provider key opts) env w"

definition cache_has ::
  "('s, 'f, 'a) env \<Rightarrow> jsval \<Rightarrow> ('s, 'f, 'a) world \<Rightarrow> jsval promise \<times> ('s, 'f, 'a) world" where
  "cache_has env key w =
     guarded ''Error while checking from cache: '' (PHas key)
       (\<lambda>provider. provider_has provider key) env w"

definition cache_set ::
  "('s, 'f, 'a) env \<Rightarrow> jsval \<Rightarrow> jsval \<Rightarrow> jsval \<Rightarrow> 'f options option \<Rightarrow> ('s, 'f, 'a) world \<Rightarrow>
   jsval promise \<times> ('s, 'f, 'a) world" where
  "cache_set env key v expirationInSeconds opts w =
     guarded ''Error while writing to cache: '' (PSet key v expirationInSeconds opts)
       (\<lambda>provider. provider_set provider key v expirationInSeconds opts) env w"

subsection \<open>Memoization\<close>

text \<open>The second argument of \<open>memoize\<close>; a \<open>maxAge\<close> that is undefined defaults to 0.\<close>

record 'f memoize_options =
  key :: string
  maxAge :: jsval
  serialize :: "'f option"
  unserialize :: "'f option"

definition maxAge_or_default :: "'f memoize_options \<Rightarrow> jsval" where
  "maxAge_or_default opts = (if maxAge opts = JUndefined then JNum 0 else maxAge opts)"

definition cacheKey :: "('s, 'f, 'a) env \<Rightarrow> string \<Rightarrow> jsval list \<Rightarrow> string" where
  "cacheKey env k args =
     (if length args \<noteq> 0 then k @ ''_'' @ md5 env (JSON_stringify env args) else k)"

text \<open>
  The wrapped function \<open>func\<close> is any function of the application state. \<open>cache.set\<close> is
  called without \<open>await\<close>.
\<close>

definition memoizedFunction ::
  "('s, 'f, 'a) env \<Rightarrow> (jsval list \<Rightarrow> 'a \<Rightarrow> jsval outcome \<times> 'a) \<Rightarrow> 'f memoize_options \<Rightarrow>
   jsval list \<Rightarrow> ('s, 'f, 'a) world \<Rightarrow> jsval promise \<times> ('s, 'f, 'a) world" where
  "memoizedFunction env func opts args w =
     (case cache_get env (JStr (cacheKey env (key opts) args))
             (Some (Options None (unserialize opts))) w of (got, w1) \<Rightarrow>
        (case got of
           Rejected err \<Rightarrow> (Rejected err, w1)
         | Fulfilled v \<Rightarrow>
             if v = JUndefined then
               (case func args (app w1) of (r, a) \<Rightarrow>
                  (let w2 = w1\<lparr>app := a, func_calls := func_calls w1 @ [args]\<rparr> in
                   case await r of
                     Inl err \<Rightarrow> (Rejected err, w2)
                   | Inr v' \<Rightarrow>
                       (Fulfilled v',
                        snd (cache_set env (JStr (cacheKey env (key opts) args)) v'
                               (maxAge_or_default opts) (Some (Options (serialize opts) None)) w2))))
             else (Fulfilled v, w1)))"

definition memoizedFunction_refresh ::
  "('s, 'f, 'a) env \<Rightarrow> (jsval list \<Rightarrow> 'a \<Rightarrow> jsval outcome \<times> 'a) \<Rightarrow> 'f memoize_options \<Rightarrow>
   jsval list \<Rightarrow> ('s, 'f, 'a) world \<Rightarrow> jsval promise \<times> ('s, 'f, 'a) world" where
  "memoizedFunction_refresh env func opts args w =
     (case func args (app w) of (r, a) \<Rightarrow>
        (let w1 = w\<lparr>app := a, func_calls := func_calls w @ [args]\<rparr> in
         case await r of
           Inl err \<Rightarrow> (Rejected err, w1)
         | Inr v \<Rightarrow>
             (Fulfilled JUndefined,
              snd (cache_set env (JStr (cacheKey env (key opts) args)) v
                     (maxAge_or_default opts) (Some (Options (serialize opts) None)) w1))))"

definition memoizedFunction_clear ::
  "('s, 'f, 'a) env \<Rightarrow> 'f memoize_options \<Rightarrow> jsval list \<Rightarrow> ('s, 'f, 'a) world \<Rightarrow>
   jsval promise \<times> ('s, 'f, 'a) world" where
  "memoizedFunction_clear env opts args w =
     (Fulfilled JUndefined, snd (cache_delete env (JStr (cacheKey env (key opts) args)) w))"

subsection \<open>Purging\<close>

text \<open>What \<open>for (const key of keys)\<close> runs through; \<open>None\<close> when the value is not iterable.\<close>

fun iterate :: "jsval \<Rightarrow> jsval list option" where
  "iterate (JArr xs) = Some xs"
| "iterate (JStr s) = Some (map (\<lambda>c. JStr [c]) s)"
| "iterate JUndefined = None"
| "iterate JNull = None"
| "iterate (JBool b) = None"
| "iterate (JNum n) = None"
| "iterate (JObj kvs) = None"

definition graphqlCacheKeys :: "string \<Rightarrow> jsval" where
  "graphqlCacheKeys slug = JStr (''graphqlCacheKeys_'' @ slug)"

text \<open>
  The callback of \<open>then\<close> calls \<open>cache.delete\<close> on the set key first and on the listed keys
  after it, all without \<open>await\<close>. When the loop throws, the promise of \<open>then\<close> is rejected,
  and the first delete has been issued.
\<close>

definition purgeGraphqlCacheForCollective ::
  "('s, 'f, 'a) env \<Rightarrow> string \<Rightarrow> ('s, 'f, 'a) world \<Rightarrow> jsval promise \<times> ('s, 'f, 'a) world" where
  "purgeGraphqlCacheForCollective env slug w =
     (case cache_get env (graphqlCacheKeys slug) None w of
        (got, w1) \<Rightarrow>
          (case got of
             Rejected err \<Rightarrow> (Rejected err, w1)
           | Fulfilled keys \<Rightarrow>
               if truthy keys then
                 (let w2 = snd (cache_delete env (graphqlCacheKeys slug) w1) in
                  case iterate keys of
                    None \<Rightarrow> (Rejected (TypeError ''keys is not iterable''), w2)
                  | Some ks \<Rightarrow>
                      (Fulfilled JUndefined, fold (\<lambda>k w'. snd (cache_delete env k w')) ks w2))
               else (Fulfilled JUndefined, w1)))"

text \<open>
  \<open>purgeCacheForCollective\<close> is not \<open>async\<close>: a synchronous throw of \<open>purgeCacheForPage\<close>
  leaves it at once (\<open>Inl\<close>). What the two calls return is dropped, and the function returns
  \<open>undefined\<close> (\<open>Inr\<close>).
\<close>

definition purgeCacheForCollective ::
  "('s, 'f, 'a) env \<Rightarrow> string \<Rightarrow> ('s, 'f, 'a) world \<Rightarrow> (jserr + jsval) \<times> ('s, 'f, 'a) world" where
  "purgeCacheForCollective env slug w =
     (case purgeCacheForPage env (''/'' @ slug) (app w) of (r, a) \<Rightarrow>
        (let w1 = w\<lparr>app := a, purge_steps := purge_steps w @ [PurgeCacheForPage (''/'' @ slug)]\<rparr> in
         case dropped r of
           Some err \<Rightarrow> (Inl err, w1)
         | None \<Rightarrow>
             (Inr JUndefined,
              snd (purgeGraphqlCacheForCollective env slug
                     (w1\<lparr>purge_steps := purge_steps w1 @ [PurgeGraphqlCacheForCollective slug]\<rparr>)))))"

record account =
  account_slug :: string
  account_id :: jsval

definition purgeAllCachesForAccount ::
  "('s, 'f, 'a) env \<Rightarrow> account \<Rightarrow> ('s, 'f, 'a) world \<Rightarrow> jsval promise \<times> ('s, 'f, 'a) world" where
  "purgeAllCachesForAccount env acc w =
     (case purgeCacheForCollective env (account_slug acc) w of (r, w1) \<Rightarrow>
        (case r of
           Inl err \<Rightarrow> (Rejected err, w1)
         | Inr u \<Rightarrow>
             (case invalidateContributorsCache env (account_id acc) (app w1) of (r2, a) \<Rightarrow>
                (let w2 = w1\<lparr>app := a,
                              purge_steps := purge_steps w1 @ [InvalidateContributorsCache (account_id acc)]\<rparr> in
                 case await r2 of
                   Inl err \<Rightarrow> (Rejected err, w2)
                 | Inr u' \<Rightarrow> (Fulfilled JUndefined, w2)))))"

subsection \<open>Sequences of calls and what the logs show\<close>

datatype 'f facade_op =
    Clear
  | Delete jsval
  | Get jsval "'f options option"
  | Has jsval
  | Set jsval jsval jsval "'f options option"

fun facade ::
  "('s, 'f, 'a) env \<Rightarrow> 'f facade_op \<Rightarrow> ('s, 'f, 'a) world \<Rightarrow> jsval promise \<times> ('s, 'f, 'a) world" where
  "facade env Clear w = cache_clear env w"
| "facade env (Delete k) w = cache_delete env k w"
| "facade env (Get k opts) w = cache_get env k opts w"
| "facade env (Has k) w = cache_has env k w"
| "facade env (Set k v ttl opts) w = cache_set env k v ttl opts w"

text \<open>The facade operations \<open>ops\<close>, one after the other.\<close>

definition run :: "('s, 'f, 'a) env \<Rightarrow> 'f facade_op list \<Rightarrow> ('s, 'f, 'a) world \<Rightarrow> ('s, 'f, 'a) world" where
  "run env ops w = fold (\<lambda>op w'. snd (facade env op w')) ops w"

text \<open>\<open>n\<close> calls of the memoized function with the same arguments, one after the other.\<close>

fun call_times ::
  "nat \<Rightarrow> ('s, 'f, 'a) env \<Rightarrow> (jsval list \<Rightarrow> 'a \<Rightarrow> jsval outcome \<times> 'a) \<Rightarrow> 'f memoize_options \<Rightarrow>
   jsval list \<Rightarrow> ('s, 'f, 'a) world \<Rightarrow> ('s, 'f, 'a) world" where
  "call_times 0 env func opts args w = w"
| "call_times (Suc n) env func opts args w =
     call_times n env func opts args (snd (memoizedFunction env func opts args w))"

text \<open>The keys on which the provider's \<open>delete\<close> was called, in the order of the calls.\<close>

fun deleted_keys :: "'f pcall list \<Rightarrow> jsval list" where
  "deleted_keys [] = []"
| "deleted_keys (PDelete k # cs) = k # deleted_keys cs"
| "deleted_keys (PClear # cs) = deleted_keys cs"
| "deleted_keys (PGet k opts # cs) = deleted_keys cs"
| "deleted_keys (PHas k # cs) = deleted_keys cs"
| "deleted_keys (PSet k v ttl opts # cs) = deleted_keys cs"

text \<open>The key of a provider call (\<open>clear\<close> has none).\<close>

fun pcall_key :: "'f pcall \<Rightarrow> jsval option" where
  "pcall_key PClear = None"
| "pcall_key (PDelete k) = Some k"
| "pcall_key (PGet k opts) = Some k"
| "pcall_key (PHas k) = Some k"
| "pcall_key (PSet k v ttl opts) = Some k"

text \<open>The provider calls that were made between the state \<open>w\<close> and the later state \<open>w'\<close>.\<close>

definition new_calls :: "('s, 'f, 'a) world \<Rightarrow> ('s, 'f, 'a) world \<Rightarrow> 'f pcall list" where
  "new_calls w w' = drop (length (provider_calls w)) (provider_calls w')"

subsection \<open>Example deployments\<close>

text \<open>
  Modelled from the spec: the factories \<open>makeMemoryProvider\<close>, \<open>makeRedisProvider\<close> and
  \<open>makeMemcacheProvider\<close> are missing from the sources. \<open>memory_provider\<close> follows the
  provider contract of section 4.1 of the specification on a store that is a map from keys to
  values: \<open>get\<close> returns the stored value or \<open>undefined\<close>, \<open>set\<close> stores, \<open>has\<close> tells
  whether the key is stored, \<open>delete\<close> removes the key if it is there, \<open>clear\<close> removes all.
  Expiry and the bound on the size are left out. Every operation returns a promise.
\<close>

definition memory_provider :: "(jsval \<rightharpoonup> jsval, 'f) provider" where
  "memory_provider =
     \<lparr>provider_clear = (\<lambda>s. (Thenable (Fulfilled JUndefined), Map.empty)),
      provider_delete = (\<lambda>k s. (Thenable (Fulfilled JUndefined), s(k := None))),
      provider_get = (\<lambda>k opts s.
        (Thenable (Fulfilled (case s k of None \<Rightarrow> JUndefined | Some v \<Rightarrow> v)), s)),
      provider_has = (\<lambda>k s. (Thenable (Fulfilled (JBool (s k \<noteq> None))), s)),
      provider_set = (\<lambda>k v ttl opts s. (Thenable (Fulfilled JUndefined), s(k \<mapsto> v)))\<rparr>"

text \<open>
  A provider whose backend cannot be reached: each operation is an \<open>async\<close> function that
  throws, so that it returns a rejected promise.
\<close>

definition unreachable_provider :: "('s, 'f) provider" where
  "unreachable_provider =
     \<lparr>provider_clear = (\<lambda>s. (Thenable (Rejected (Error ''connect ECONNREFUSED'')), s)),
      provider_delete = (\<lambda>k s. (Thenable (Rejected (Error ''connect ECONNREFUSED'')), s)),
      provider_get = (\<lambda>k opts s. (Thenable (Rejected (Error ''connect ECONNREFUSED'')), s)),
      provider_has = (\<lambda>k s. (Thenable (Rejected (Error ''connect ECONNREFUSED'')), s)),
      provider_set = (\<lambda>k v ttl opts s. (Thenable (Rejected (Error ''connect ECONNREFUSED'')), s))\<rparr>"

text \<open>
  A deployment without Redis and Memcache settings. The builtins are stand-ins: the string
  conversion is right on strings only, \<open>JSON.stringify\<close> and \<open>md5\<close> are replaced by simple
  functions. The collaborators count their calls in the application state and succeed.
\<close>

definition example_env :: "(jsval \<rightharpoonup> jsval, unit, nat) env" where
  "example_env =
     \<lparr>config_get = (\<lambda>path. JUndefined),
      toString = (\<lambda>v. case v of JStr s \<Rightarrow> s | _ \<Rightarrow> ''undefined''),
      JSON_stringify = (\<lambda>args. concat (map (\<lambda>v. case v of JStr s \<Rightarrow> s | _ \<Rightarrow> ''null'') args)),
      md5 = rev,
      makeMemcacheProvider = (\<lambda>conf. Plain memory_provider),
      makeMemoryProvider = (\<lambda>n. Plain memory_provider),
      makeRedisProvider = Thenable (Fulfilled unreachable_provider),
      purgeCacheForPage = (\<lambda>path a. (Thenable (Fulfilled JUndefined), Suc a)),
      invalidateContributorsCache = (\<lambda>i a. (Thenable (Fulfilled JUndefined), Suc a))\<rparr>"

text \<open>The same deployment with a Redis connection string, and a Redis that is down.\<close>

definition redis_env :: "(jsval \<rightharpoonup> jsval, unit, nat) env" where
  "redis_env =
     example_env\<lparr>config_get :=
       (\<lambda>path. if path = ''redis.serverUrl'' then JStr ''redis://localhost:6379'' else JUndefined)\<rparr>"

text \<open>The state of the module when it has been loaded, with a given store.\<close>

definition loaded :: "'s \<Rightarrow> 'a \<Rightarrow> ('s, 'f, 'a) world" where
  "loaded s a =
     \<lparr>defaultProvider = None, store = s, app = a, warnings = [], resolutions = [],
      provider_calls = [], func_calls = [], purge_steps = []\<rparr>"

text \<open>A store that holds the invalidation set of the collective \<open>acme\<close> and its two members.\<close>

definition acme_store :: "jsval \<rightharpoonup> jsval" where
  "acme_store =
     [JStr ''graphqlCacheKeys_acme'' \<mapsto> JArr [JStr ''a'', JStr ''b''],
      JStr ''a'' \<mapsto> JNum 1, JStr ''b'' \<mapsto> JNum 2]"

text \<open>
  A deployment in which everything fails asynchronously: Redis is down, and both purge
  collaborators return rejected promises.
\<close>

definition failing_env :: "(jsval \<rightharpoonup> jsval, unit, nat) env" where
  "failing_env =
     redis_env\<lparr>purgeCacheForPage := (\<lambda>path a. (Thenable (Rejected (Error ''purge failed'')), Suc a)),
               invalidateContributorsCache :=
                 (\<lambda>i a. (Thenable (Rejected (Error ''invalidate failed'')), Suc a))\<rparr>"

text \<open>A deployment whose \<open>purgeCacheForPage\<close> throws synchronously.\<close>

definition throwing_env :: "(jsval \<rightharpoonup> jsval, unit, nat) env" where
  "throwing_env =
     example_env\<lparr>purgeCacheForPage := (\<lambda>path a. (Throws (TypeError ''path is not valid''), a))\<rparr>"

definition acme :: account where
  "acme = \<lparr>account_slug = ''acme'', account_id = JNum 7\<rparr>"

text \<open>
  Memoization under the key \<open>k\<close> without a \<open>maxAge\<close>, and three wrapped functions: one
  resolves to 42, one resolves to \<open>undefined\<close>, one fails. Each counts its calls in the
  application state.
\<close>

definition example_options :: "unit memoize_options" where
  "example_options = \<lparr>key = ''k'', maxAge = JUndefined, serialize = None, unserialize = None\<rparr>"

definition answer :: "jsval list \<Rightarrow> nat \<Rightarrow> jsval outcome \<times> nat" where
  "answer args n = (Thenable (Fulfilled (JNum 42)), Suc n)"

definition nothing :: "jsval list \<Rightarrow> nat \<Rightarrow> jsval outcome \<times> nat" where
  "nothing args n = (Thenable (Fulfilled JUndefined), Suc n)"

definition failing :: "jsval list \<Rightarrow> nat \<Rightarrow> jsval outcome \<times> nat" where
  "failing args n = (Thenable (Rejected (Error ''database is down'')), Suc n)"

text \<open>A store that already holds a value under the key \<open>k\<close>.\<close>

definition warm_store :: "jsval \<rightharpoonup> jsval" where
  "warm_store = [JStr ''k'' \<mapsto> JNum 7]"

text \<open>Memoization under the key \<open>k\<close> with a \<open>maxAge\<close> of one hour.\<close>

definition hour_options :: "unit memoize_options" where
  "hour_options = \<lparr>key = ''k'', maxAge = JNum 3600, serialize = None, unserialize = None\<rparr>"

section \<open>Properties\<close>

subsection \<open>The facade and the default provider\<close>

lemma getDefaultProvider_set:
  "defaultProvider w = Some p \<Longrightarrow> getDefaultProvider env w = (p, w)"
  by (simp add: getDefaultProvider_def Let_def)

lemma guarded_frame:
  "app (snd (guarded what c op env w)) = app w"
  "func_calls (snd (guarded what c op env w)) = func_calls w"
  "purge_steps (snd (guarded what c op env w)) = purge_steps w"
  by (auto simp: guarded_def getDefaultProvider_def logger_warn_def Let_def
           split: option.splits promise.splits outcome.splits prod.splits)

lemma guarded_defaultProvider:
  "defaultProvider (snd (guarded what c op env w)) =
     Some (case defaultProvider w of None \<Rightarrow> getProvider env (JStr (getDefaultProviderType env))
           | Some p \<Rightarrow> p)"
  by (auto simp: guarded_def getDefaultProvider_def logger_warn_def Let_def
           split: option.splits promise.splits outcome.splits prod.splits)

lemma guarded_resolutions:
  "resolutions (snd (guarded what c op env w)) =
     resolutions w @ (case defaultProvider w of None \<Rightarrow> [JStr (getDefaultProviderType env)]
           | Some p \<Rightarrow> [])"
  by (auto simp: guarded_def getDefaultProvider_def logger_warn_def Let_def
           split: option.splits promise.splits outcome.splits prod.splits)

lemma guarded_provider_calls:
  "provider_calls (snd (guarded what c op env w)) =
     provider_calls w @ (case fst (getDefaultProvider env w) of Fulfilled P \<Rightarrow> [c] | Rejected err \<Rightarrow> [])"
  by (auto simp: guarded_def getDefaultProvider_def logger_warn_def Let_def
           split: option.splits promise.splits outcome.splits prod.splits)

lemma guarded_value_fulfilled:
  "guarded what c op env w = (Fulfilled v, w1) \<Longrightarrow> v \<noteq> JUndefined \<Longrightarrow>
   \<exists>P. defaultProvider w1 = Some (Fulfilled P)"
  by (auto simp: guarded_def getDefaultProvider_def logger_warn_def Let_def
           split: option.splits promise.splits outcome.splits prod.splits)

lemmas cache_defs = cache_clear_def cache_delete_def cache_get_def cache_has_def cache_set_def

lemma facade_defaultProvider:
  "defaultProvider (snd (facade env op w)) =
     Some (case defaultProvider w of None \<Rightarrow> getProvider env (JStr (getDefaultProviderType env))
           | Some p \<Rightarrow> p)"
  by (cases op) (simp_all add: cache_defs guarded_defaultProvider)

lemma facade_resolutions:
  "resolutions (snd (facade env op w)) =
     resolutions w @ (case defaultProvider w of None \<Rightarrow> [JStr (getDefaultProviderType env)]
           | Some p \<Rightarrow> [])"
  by (cases op) (simp_all add: cache_defs guarded_resolutions)

lemma run_resolved:
  "defaultProvider w = Some p \<Longrightarrow>
   defaultProvider (run env ops w) = Some p \<and> resolutions (run env ops w) = resolutions w"
proof (induction ops arbitrary: w)
  case Nil
  then show ?case by (simp add: run_def)
next
  case (Cons op ops)
  have "defaultProvider (snd (facade env op w)) = Some p"
    using Cons.prems by (simp add: facade_defaultProvider)
  moreover have "resolutions (snd (facade env op w)) = resolutions w"
    using Cons.prems by (simp add: facade_resolutions)
  ultimately show ?case
    using Cons.IH [of "snd (facade env op w)"] by (simp add: run_def)
qed

text \<open>
  What the \<open>try\<close>/\<open>catch\<close> of a facade method does catch: a rejected provider promise and
  a synchronous throw of the provider's operation end in a warning and \<open>undefined\<close>.
\<close>

lemma guarded_catches:
  assumes "fst (getDefaultProvider env w) = Rejected err
           \<or> (\<exists>P. fst (getDefaultProvider env w) = Fulfilled P
                  \<and> fst (op P (store (snd (getDefaultProvider env w)))) = Throws err)"
  shows "fst (guarded what c op env w) = Fulfilled JUndefined
         \<and> warnings (snd (guarded what c op env w)) = warnings w @ [what @ message err]"
  using assms
  by (auto simp: guarded_def getDefaultProvider_def logger_warn_def Let_def
           split: option.splits promise.splits outcome.splits prod.splits)

text \<open>
  What it does not catch: a rejected promise that the provider's operation returns becomes
  the result of the facade method, and nothing is logged.
\<close>

lemma guarded_passes_rejection:
  assumes "fst (getDefaultProvider env w) = Fulfilled P"
    and "fst (op P (store (snd (getDefaultProvider env w)))) = Thenable (Rejected err)"
  shows "fst (guarded what c op env w) = Rejected err
         \<and> warnings (snd (guarded what c op env w)) = warnings w"
  using assms
  by (auto simp: guarded_def getDefaultProvider_def Let_def
           split: option.splits promise.splits outcome.splits prod.splits)

text \<open>What one facade call leaves behind, in terms of the state before it.\<close>

lemma cache_get_after:
  assumes "cache_get env k opts w = (got, w1)"
  shows "app w1 = app w" "func_calls w1 = func_calls w" "purge_steps w1 = purge_steps w"
    "provider_calls w1 = provider_calls w @
       (case fst (getDefaultProvider env w) of Fulfilled P \<Rightarrow> [PGet k opts] | Rejected err \<Rightarrow> [])"
    "defaultProvider w1 = Some (fst (getDefaultProvider env w))"
  using guarded_frame [of "''Error while fetching from cache: ''" "PGet k opts"
      "\<lambda>provider. provider_get provider k opts" env w]
    guarded_provider_calls [of "''Error while fetching from cache: ''" "PGet k opts"
      "\<lambda>provider. provider_get provider k opts" env w]
    guarded_defaultProvider [of "''Error while fetching from cache: ''" "PGet k opts"
      "\<lambda>provider. provider_get provider k opts" env w]
    assms
  by (auto simp: cache_get_def getDefaultProvider_def Let_def split: option.splits)

lemma cache_set_after:
  "app (snd (cache_set env k v ttl opts w)) = app w"
  "func_calls (snd (cache_set env k v ttl opts w)) = func_calls w"
  "purge_steps (snd (cache_set env k v ttl opts w)) = purge_steps w"
  "provider_calls (snd (cache_set env k v ttl opts w)) = provider_calls w @
     (case fst (getDefaultProvider env w) of Fulfilled P \<Rightarrow> [PSet k v ttl opts] | Rejected err \<Rightarrow> [])"
  "defaultProvider (snd (cache_set env k v ttl opts w)) = Some (fst (getDefaultProvider env w))"
  using guarded_defaultProvider [of "''Error while writing to cache: ''" "PSet k v ttl opts"
      "\<lambda>provider. provider_set provider k v ttl opts" env w]
  by (auto simp: cache_set_def guarded_frame guarded_provider_calls getDefaultProvider_def Let_def
      split: option.splits)

lemma cache_delete_after:
  "app (snd (cache_delete env k w)) = app w"
  "func_calls (snd (cache_delete env k w)) = func_calls w"
  "purge_steps (snd (cache_delete env k w)) = purge_steps w"
  "provider_calls (snd (cache_delete env k w)) = provider_calls w @
     (case fst (getDefaultProvider env w) of Fulfilled P \<Rightarrow> [PDelete k] | Rejected err \<Rightarrow> [])"
  "defaultProvider (snd (cache_delete env k w)) = Some (fst (getDefaultProvider env w))"
  using guarded_defaultProvider [of "''Error while deleting from cache: ''" "PDelete k"
      "\<lambda>provider. provider_delete provider k" env w]
  by (auto simp: cache_delete_def guarded_frame guarded_provider_calls getDefaultProvider_def Let_def
      split: option.splits)

lemma cache_set_store:
  "fst (getDefaultProvider env w) = Fulfilled P \<Longrightarrow>
   store (snd (cache_set env k v ttl opts w)) = snd (provider_set P k v ttl opts (store w))"
  by (auto simp: cache_set_def guarded_def getDefaultProvider_def logger_warn_def Let_def
           split: outcome.splits prod.splits option.splits)

lemma cache_get_resolved:
  "fst (getDefaultProvider env w) = Fulfilled P \<Longrightarrow>
   fst (cache_get env k opts w) =
     (case fst (provider_get P k opts (store w)) of
        Throws err \<Rightarrow> Fulfilled JUndefined | Plain v \<Rightarrow> Fulfilled v | Thenable q \<Rightarrow> q)"
  by (auto simp: cache_get_def guarded_def getDefaultProvider_def logger_warn_def Let_def
           split: outcome.splits prod.splits option.splits)

subsection \<open>Purging and memoization, step by step\<close>

lemma deleted_keys_append: "deleted_keys (xs @ ys) = deleted_keys xs @ deleted_keys ys"
  by (induction xs rule: deleted_keys.induct) simp_all

lemma deleted_keys_map: "deleted_keys (map PDelete ks) = ks"
  by (induction ks) simp_all

lemma fold_delete_after:
  "app (fold (\<lambda>k w'. snd (cache_delete env k w')) ks w) = app w"
  "purge_steps (fold (\<lambda>k w'. snd (cache_delete env k w')) ks w) = purge_steps w"
  by (induction ks arbitrary: w) (simp_all add: cache_delete_after)

lemma fold_delete_calls:
  "defaultProvider w = Some (Fulfilled P) \<Longrightarrow>
   provider_calls (fold (\<lambda>k w'. snd (cache_delete env k w')) ks w) =
     provider_calls w @ map PDelete ks"
proof (induction ks arbitrary: w)
  case Nil
  then show ?case by simp
next
  case (Cons k ks)
  have "defaultProvider (snd (cache_delete env k w)) = Some (Fulfilled P)"
    using Cons.prems by (simp add: cache_delete_after getDefaultProvider_set)
  moreover have "provider_calls (snd (cache_delete env k w)) = provider_calls w @ [PDelete k]"
    using Cons.prems by (simp add: cache_delete_after getDefaultProvider_set)
  ultimately show ?case
    using Cons.IH [of "snd (cache_delete env k w)"] by simp
qed

lemma purgeGraphqlCacheForCollective_frame:
  "app (snd (purgeGraphqlCacheForCollective env slug w)) = app w"
  "purge_steps (snd (purgeGraphqlCacheForCollective env slug w)) = purge_steps w"
proof -
  obtain got w1 where g: "cache_get env (graphqlCacheKeys slug) None w = (got, w1)"
    by (cases "cache_get env (graphqlCacheKeys slug) None w")
  have "app w1 = app w" "purge_steps w1 = purge_steps w"
    using cache_get_after [OF g] by simp_all
  then show "app (snd (purgeGraphqlCacheForCollective env slug w)) = app w"
    "purge_steps (snd (purgeGraphqlCacheForCollective env slug w)) = purge_steps w"
    using g
    by (simp_all add: purgeGraphqlCacheForCollective_def Let_def fold_delete_after cache_delete_after
          split: promise.splits option.splits)
qed

lemma memoizedFunction_hit:
  assumes "cache_get env (JStr (cacheKey env (key opts) args))
             (Some (Options None (unserialize opts))) w = (Fulfilled v, w1)"
    and "v \<noteq> JUndefined"
  shows "memoizedFunction env func opts args w = (Fulfilled v, w1)"
  using assms by (simp add: memoizedFunction_def Let_def)

lemma memoized_new_calls:
  "\<forall>c \<in> set (new_calls w (snd (memoizedFunction env func opts args w))).
     pcall_key c = Some (JStr (cacheKey env (key opts) args))"
proof -
  let ?K = "JStr (cacheKey env (key opts) args)"
  obtain got w1 where g: "cache_get env ?K (Some (Options None (unserialize opts))) w = (got, w1)"
    by (cases "cache_get env ?K (Some (Options None (unserialize opts))) w")
  obtain xs where xs: "provider_calls w1 = provider_calls w @ xs"
    "\<forall>c \<in> set xs. pcall_key c = Some ?K"
    using cache_get_after(4) [OF g] by (cases "fst (getDefaultProvider env w)") simp_all
  have set_calls: "\<exists>ys. provider_calls (snd (cache_set env ?K v ttl o' w2)) = provider_calls w @ ys
      \<and> (\<forall>c \<in> set ys. pcall_key c = Some ?K)"
    if "provider_calls w2 = provider_calls w1" for v ttl o' w2
    using that xs cache_set_after(4) [of env ?K v ttl o' w2]
    by (cases "fst (getDefaultProvider env w2)") simp_all
  have "\<exists>ys. provider_calls (snd (memoizedFunction env func opts args w)) = provider_calls w @ ys
      \<and> (\<forall>c \<in> set ys. pcall_key c = Some ?K)"
    using g xs set_calls
    by (auto simp: memoizedFunction_def Let_def split: promise.splits prod.splits sum.splits)
  then show ?thesis
    by (auto simp: new_calls_def)
qed

lemma refresh_new_calls:
  "\<forall>c \<in> set (new_calls w (snd (memoizedFunction_refresh env func opts args w))).
     pcall_key c = Some (JStr (cacheKey env (key opts) args))"
proof -
  let ?K = "JStr (cacheKey env (key opts) args)"
  have set_calls: "\<exists>ys. provider_calls (snd (cache_set env ?K v ttl o' w2)) = provider_calls w @ ys
      \<and> (\<forall>c \<in> set ys. pcall_key c = Some ?K)"
    if "provider_calls w2 = provider_calls w" for v ttl o' w2
    using that cache_set_after(4) [of env ?K v ttl o' w2]
    by (cases "fst (getDefaultProvider env w2)") simp_all
  have "\<exists>ys. provider_calls (snd (memoizedFunction_refresh env func opts args w)) = provider_calls w @ ys
      \<and> (\<forall>c \<in> set ys. pcall_key c = Some ?K)"
    using set_calls
    by (auto simp: memoizedFunction_refresh_def Let_def split: prod.splits sum.splits)
  then show ?thesis
    by (auto simp: new_calls_def)
qed

lemma clear_new_calls:
  "new_calls w (snd (memoizedFunction_clear env opts args w)) =
     (case fst (getDefaultProvider env w) of
        Fulfilled P \<Rightarrow> [PDelete (JStr (cacheKey env (key opts) args))] | Rejected err \<Rightarrow> [])"
  by (simp add: memoizedFunction_clear_def new_calls_def cache_delete_after)

lemma undefined_result_step:
  assumes P: "fst (getDefaultProvider env w) = Fulfilled P"
    and H: "\<forall>s. fst (provider_get P (JStr (cacheKey env (key opts) args))
                    (Some (Options None (unserialize opts)))
                    (snd (provider_set P (JStr (cacheKey env (key opts) args)) JUndefined
                            (maxAge_or_default opts) (Some (Options (serialize opts) None)) s)))
              \<in> {Plain JUndefined, Thenable (Fulfilled JUndefined)}"
    and F: "\<forall>a. await (fst (func args a)) = Inr JUndefined"
    and M: "fst (cache_get env (JStr (cacheKey env (key opts) args))
                   (Some (Options None (unserialize opts))) w) = Fulfilled JUndefined"
  shows "func_calls (snd (memoizedFunction env func opts args w)) = func_calls w @ [args]"
    and "fst (getDefaultProvider env (snd (memoizedFunction env func opts args w))) = Fulfilled P"
    and "fst (cache_get env (JStr (cacheKey env (key opts) args))
                (Some (Options None (unserialize opts)))
                (snd (memoizedFunction env func opts args w))) = Fulfilled JUndefined"
proof -
  let ?K = "JStr (cacheKey env (key opts) args)"
  let ?o = "Some (Options None (unserialize opts))"
  let ?o' = "Some (Options (serialize opts) None)"
  obtain w1 where g: "cache_get env ?K ?o w = (Fulfilled JUndefined, w1)"
    using M by (cases "cache_get env ?K ?o w") simp
  obtain r a where f: "func args (app w1) = (r, a)"
    by (cases "func args (app w1)")
  have r: "await r = Inr JUndefined"
    using F [rule_format, of "app w1"] f by simp
  let ?w2 = "w1\<lparr>app := a, func_calls := func_calls w1 @ [args]\<rparr>"
  let ?w' = "snd (cache_set env ?K JUndefined (maxAge_or_default opts) ?o' ?w2)"
  have eq: "snd (memoizedFunction env func opts args w) = ?w'"
    using g f r by (simp add: memoizedFunction_def Let_def)
  have d1: "defaultProvider w1 = Some (Fulfilled P)"
    using cache_get_after(5) [OF g] P by simp
  then have p2: "fst (getDefaultProvider env ?w2) = Fulfilled P"
    by (simp add: getDefaultProvider_set)
  have d': "defaultProvider ?w' = Some (Fulfilled P)"
    using p2 by (simp add: cache_set_after)
  then have p': "fst (getDefaultProvider env ?w') = Fulfilled P"
    by (simp add: getDefaultProvider_set)
  show "func_calls (snd (memoizedFunction env func opts args w)) = func_calls w @ [args]"
    using cache_get_after(2) [OF g] by (simp add: eq cache_set_after)
  show "fst (getDefaultProvider env (snd (memoizedFunction env func opts args w))) = Fulfilled P"
    using p' by (simp add: eq)
  have "store ?w' = snd (provider_set P ?K JUndefined (maxAge_or_default opts) ?o' (store ?w2))"
    using p2 by (rule cache_set_store)
  then have "fst (provider_get P ?K ?o (store ?w')) \<in> {Plain JUndefined, Thenable (Fulfilled JUndefined)}"
    using H by simp
  then have "fst (cache_get env ?K ?o ?w') = Fulfilled JUndefined"
    using cache_get_resolved [OF p', of ?K ?o] by auto
  then show "fst (cache_get env ?K ?o (snd (memoizedFunction env func opts args w))) = Fulfilled JUndefined"
    by (simp add: eq)
qed

lemma memoizedFunction_lookup_cases:
  assumes "cache_get env (JStr (cacheKey env (key opts) args))
             (Some (Options None (unserialize opts))) w = (Fulfilled v, w1)"
  shows "(v \<noteq> JUndefined \<longrightarrow>
            memoizedFunction env func opts args w = (Fulfilled v, w1) \<and>
            func_calls w1 = func_calls w \<and> app w1 = app w)
       \<and> (v = JUndefined \<longrightarrow> func args (app w1) = (r, a) \<longrightarrow> await r = Inr v' \<longrightarrow>
            memoizedFunction env func opts args w =
              (Fulfilled v',
               snd (cache_set env (JStr (cacheKey env (key opts) args)) v' (maxAge_or_default opts)
                      (Some (Options (serialize opts) None))
                      (w1\<lparr>app := a, func_calls := func_calls w @ [args]\<rparr>))) \<and>
            func_calls (snd (memoizedFunction env func opts args w)) = func_calls w @ [args] \<and>
            (\<forall>P. defaultProvider w1 = Some (Fulfilled P) \<longrightarrow>
               new_calls w1 (snd (memoizedFunction env func opts args w)) =
                 [PSet (JStr (cacheKey env (key opts) args)) v' (maxAge_or_default opts)
                    (Some (Options (serialize opts) None))] \<and>
               store (snd (memoizedFunction env func opts args w)) =
                 snd (provider_set P (JStr (cacheKey env (key opts) args)) v'
                        (maxAge_or_default opts) (Some (Options (serialize opts) None)) (store w1))))"
proof (intro conjI impI allI)
  assume "v \<noteq> JUndefined"
  then show "memoizedFunction env func opts args w = (Fulfilled v, w1)"
    using assms by (rule memoizedFunction_hit [rotated])
next
  show "func_calls w1 = func_calls w" "app w1 = app w"
    using cache_get_after [OF assms] by simp_all
next
  assume v: "v = JUndefined" and f: "func args (app w1) = (r, a)" and r: "await r = Inr v'"
  let ?w2 = "w1\<lparr>app := a, func_calls := func_calls w @ [args]\<rparr>"
  have fc: "func_calls w1 = func_calls w"
    using cache_get_after [OF assms] by simp
  have eq: "memoizedFunction env func opts args w =
      (Fulfilled v',
       snd (cache_set env (JStr (cacheKey env (key opts) args)) v' (maxAge_or_default opts)
              (Some (Options (serialize opts) None)) ?w2))"
    using assms v f r fc by (simp add: memoizedFunction_def Let_def)
  show "memoizedFunction env func opts args w =
      (Fulfilled v',
       snd (cache_set env (JStr (cacheKey env (key opts) args)) v' (maxAge_or_default opts)
              (Some (Options (serialize opts) None)) ?w2))"
    by (rule eq)
  show "func_calls (snd (memoizedFunction env func opts args w)) = func_calls w @ [args]"
    by (simp add: eq cache_set_after)
  fix P
  assume P: "defaultProvider w1 = Some (Fulfilled P)"
  then have P2: "defaultProvider ?w2 = Some (Fulfilled P)"
    by simp
  show "new_calls w1 (snd (memoizedFunction env func opts args w)) =
      [PSet (JStr (cacheKey env (key opts) args)) v' (maxAge_or_default opts)
         (Some (Options (serialize opts) None))]"
    using P2 by (simp add: eq cache_set_after getDefaultProvider_set new_calls_def)
  show "store (snd (memoizedFunction env func opts args w)) =
      snd (provider_set P (JStr (cacheKey env (key opts) args)) v'
             (maxAge_or_default opts) (Some (Options (serialize opts) None)) (store w1))"
    using cache_set_store [of env ?w2 P] P2 by (simp add: eq getDefaultProvider_set)
qed

subsection \<open>The example deployments, evaluated\<close>

lemmas example_defs =
  cache_defs guarded_def getDefaultProvider_def getDefaultProviderType_def getProvider_def
  example_env_def redis_env_def loaded_def memory_provider_def unreachable_provider_def
  MEMCACHE_def REDIS_def MEMORY_def logger_warn_def Let_def graphqlCacheKeys_def

lemma acme_lookup:
  "cache_get example_env (graphqlCacheKeys ''acme'') None (loaded acme_store 0) =
     (Fulfilled (JArr [JStr ''a'', JStr ''b'']),
      (loaded acme_store 0)\<lparr>defaultProvider := Some (Fulfilled memory_provider),
         resolutions := [JStr ''MEMORY''], provider_calls := [PGet (JStr ''graphqlCacheKeys_acme'') None]\<rparr>)"
  by (simp add: example_defs acme_store_def)

lemma cold_lookup:
  "cache_get example_env (JStr (cacheKey example_env (key example_options) []))
     (Some (Options None (unserialize example_options))) (loaded Map.empty 0) =
   (Fulfilled JUndefined,
    (loaded Map.empty 0)\<lparr>defaultProvider := Some (Fulfilled memory_provider),
       resolutions := [JStr ''MEMORY''],
       provider_calls := [PGet (JStr ''k'') (Some (Options None None))]\<rparr>)"
  by (simp add: example_defs cacheKey_def example_options_def)

lemma cold_lookup_hour:
  "cache_get example_env (JStr (cacheKey example_env (key hour_options) [JStr ''x'']))
     (Some (Options None (unserialize hour_options))) (loaded Map.empty 0) =
   (Fulfilled JUndefined,
    (loaded Map.empty 0)\<lparr>defaultProvider := Some (Fulfilled memory_provider),
       resolutions := [JStr ''MEMORY''],
       provider_calls := [PGet (JStr ''k_x'') (Some (Options None None))]\<rparr>)"
  by (simp add: example_defs cacheKey_def hour_options_def)

lemma warm_lookup:
  "cache_get example_env (JStr (cacheKey example_env (key example_options) []))
     (Some (Options None (unserialize example_options))) (loaded warm_store 0) =
   (Fulfilled (JNum 7),
    (loaded warm_store 0)\<lparr>defaultProvider := Some (Fulfilled memory_provider),
       resolutions := [JStr ''MEMORY''],
       provider_calls := [PGet (JStr ''k'') (Some (Options None None))]\<rparr>)"
  by (simp add: example_defs cacheKey_def example_options_def warm_store_def)

subsection \<open>The claims\<close>

text \<open>
  C1. The claim: whenever the provider's operation throws, a facade call logs a warning and
  resolves to \<open>undefined\<close>, and never hands the failure to its caller. The methods return
  the provider's result from inside \<open>try\<close> without \<open>await\<close>, so this fails for a
  provider whose operations are \<open>async\<close>: with a Redis that is down, each of the five facade
  operations returns a promise rejected with the provider's error, and nothing is logged.
\<close>

theorem facade_rejects_when_provider_rejects:
  "fst (facade redis_env op (loaded Map.empty 0)) = Rejected (Error ''connect ECONNREFUSED'')
   \<and> warnings (snd (facade redis_env op (loaded Map.empty 0))) = []"
  by (cases op)
     (simp_all add: cache_defs guarded_def getDefaultProvider_def getDefaultProviderType_def
        getProvider_def redis_env_def example_env_def loaded_def unreachable_provider_def
        MEMCACHE_def REDIS_def MEMORY_def Let_def)

text \<open>
  C2, as amended. \<open>purgeGraphqlCacheForCollective(slug)\<close> reads the value stored under
  \<open>graphqlCacheKeys_<slug>\<close>. When the value is truthy and iterable (an invalidation set is
  an array), the provider's \<open>delete\<close> is called on the set key first and then on every
  listed key, in the order of the list, and the call completes without error. When the
  value is falsy (no set is stored), the call completes without error and no delete is made.
\<close>

theorem purgeGraphqlCacheForCollective_deletes:
  assumes "cache_get env (graphqlCacheKeys slug) None w = (Fulfilled keys, w1)"
  shows "(truthy keys \<longrightarrow> iterate keys = Some ks \<longrightarrow>
            fst (purgeGraphqlCacheForCollective env slug w) = Fulfilled JUndefined \<and>
            deleted_keys (provider_calls (snd (purgeGraphqlCacheForCollective env slug w))) =
              deleted_keys (provider_calls w) @ graphqlCacheKeys slug # ks)
       \<and> (\<not> truthy keys \<longrightarrow>
            purgeGraphqlCacheForCollective env slug w = (Fulfilled JUndefined, w1) \<and>
            deleted_keys (provider_calls w1) = deleted_keys (provider_calls w))"
proof (intro conjI impI)
  assume t: "truthy keys" and it: "iterate keys = Some ks"
  from t have "keys \<noteq> JUndefined" by auto
  with assms obtain P where P: "defaultProvider w1 = Some (Fulfilled P)"
    unfolding cache_get_def using guarded_value_fulfilled by blast
  let ?w2 = "snd (cache_delete env (graphqlCacheKeys slug) w1)"
  have w2: "defaultProvider ?w2 = Some (Fulfilled P)"
    "provider_calls ?w2 = provider_calls w1 @ [PDelete (graphqlCacheKeys slug)]"
    using P by (simp_all add: cache_delete_after getDefaultProvider_set)
  have eq: "purgeGraphqlCacheForCollective env slug w =
    (Fulfilled JUndefined, fold (\<lambda>k w'. snd (cache_delete env k w')) ks ?w2)"
    using assms t it by (simp add: purgeGraphqlCacheForCollective_def Let_def)
  show "fst (purgeGraphqlCacheForCollective env slug w) = Fulfilled JUndefined"
    by (simp add: eq)
  have "deleted_keys (provider_calls w1) = deleted_keys (provider_calls w)"
    using cache_get_after(4) [OF assms]
    by (simp add: deleted_keys_append split: promise.splits)
  then show "deleted_keys (provider_calls (snd (purgeGraphqlCacheForCollective env slug w))) =
      deleted_keys (provider_calls w) @ graphqlCacheKeys slug # ks"
    using fold_delete_calls [OF w2(1), of env ks] w2(2)
    by (simp add: eq deleted_keys_append deleted_keys_map)
next
  assume "\<not> truthy keys"
  then show "purgeGraphqlCacheForCollective env slug w = (Fulfilled JUndefined, w1)"
    using assms by (simp add: purgeGraphqlCacheForCollective_def)
next
  show "deleted_keys (provider_calls w1) = deleted_keys (provider_calls w)"
    using cache_get_after(4) [OF assms]
    by (simp add: deleted_keys_append split: promise.splits)
qed

theorem purgeGraphqlCacheForCollective_deletes_witness:
  "deleted_keys (provider_calls (snd (purgeGraphqlCacheForCollective example_env ''acme'' (loaded acme_store 0)))) =
     [JStr ''graphqlCacheKeys_acme'', JStr ''a'', JStr ''b'']"
  using purgeGraphqlCacheForCollective_deletes [OF acme_lookup, of "[JStr ''a'', JStr ''b'']"]
  by (simp add: loaded_def graphqlCacheKeys_def)

text \<open>
  C2, as claimed (the listed keys are deleted first, the set key after them), fails: for the
  set \<open>['a', 'b']\<close> of \<open>acme\<close> the deletes are made on \<open>graphqlCacheKeys_acme\<close>,
  \<open>a\<close>, \<open>b\<close>, in this order.
\<close>

theorem purgeGraphqlCacheForCollective_order_counterexample:
  "deleted_keys (provider_calls (snd (purgeGraphqlCacheForCollective example_env ''acme'' (loaded acme_store 0)))) =
     [JStr ''graphqlCacheKeys_acme'', JStr ''a'', JStr ''b'']
   \<and> deleted_keys (provider_calls (snd (purgeGraphqlCacheForCollective example_env ''acme'' (loaded acme_store 0)))) \<noteq>
     [JStr ''a'', JStr ''b'', JStr ''graphqlCacheKeys_acme'']"
  by (simp add: purgeGraphqlCacheForCollective_def example_defs acme_store_def)

text \<open>
  C3. Let the lookup of the fingerprinted key yield \<open>v\<close>. When \<open>v\<close> is not \<open>undefined\<close>,
  the memoized function returns \<open>v\<close> and the wrapped function is not invoked (its log and the
  application state are as before). When \<open>v\<close> is \<open>undefined\<close> and the wrapped function,
  invoked with the same arguments, yields \<open>v'\<close>, the memoized function returns \<open>v'\<close>, the
  invocation is logged once, and \<open>cache.set\<close> is called with the fingerprinted key, \<open>v'\<close>
  and, as the time to live, the \<open>maxAge\<close> that was given to \<open>memoize\<close> (0 when none was
  given): with a resolved provider this is one call of the provider's \<open>set\<close> with these
  arguments, and the store is the one that call leaves.
\<close>

theorem memoizedFunction_hit_or_miss:
  assumes "cache_get env (JStr (cacheKey env (key opts) args))
             (Some (Options None (unserialize opts))) w = (Fulfilled v, w1)"
  shows "(v \<noteq> JUndefined \<longrightarrow>
            memoizedFunction env func opts args w = (Fulfilled v, w1) \<and>
            func_calls w1 = func_calls w \<and> app w1 = app w)
       \<and> (v = JUndefined \<longrightarrow> func args (app w1) = (r, a) \<longrightarrow> await r = Inr v' \<longrightarrow>
            memoizedFunction env func opts args w =
              (Fulfilled v',
               snd (cache_set env (JStr (cacheKey env (key opts) args)) v'
                      (if maxAge opts = JUndefined then JNum 0 else maxAge opts)
                      (Some (Options (serialize opts) None))
                      (w1\<lparr>app := a, func_calls := func_calls w @ [args]\<rparr>))) \<and>
            func_calls (snd (memoizedFunction env func opts args w)) = func_calls w @ [args] \<and>
            (\<forall>P. defaultProvider w1 = Some (Fulfilled P) \<longrightarrow>
               new_calls w1 (snd (memoizedFunction env func opts args w)) =
                 [PSet (JStr (cacheKey env (key opts) args)) v'
                    (if maxAge opts = JUndefined then JNum 0 else maxAge opts)
                    (Some (Options (serialize opts) None))] \<and>
               store (snd (memoizedFunction env func opts args w)) =
                 snd (provider_set P (JStr (cacheKey env (key opts) args)) v'
                        (if maxAge opts = JUndefined then JNum 0 else maxAge opts)
                        (Some (Options (serialize opts) None)) (store w1))))"
  using memoizedFunction_lookup_cases
    [OF assms, where func = func and r = r and a = a and v' = v']
  by (simp only: maxAge_or_default_def)

theorem memoizedFunction_hit_or_miss_witness:
  "fst (memoizedFunction example_env answer example_options [] (loaded warm_store 0)) =
     Fulfilled (JNum 7)
   \<and> func_calls (snd (memoizedFunction example_env answer example_options [] (loaded warm_store 0))) = []
   \<and> fst (memoizedFunction example_env answer example_options [] (loaded Map.empty 0)) =
     Fulfilled (JNum 42)
   \<and> func_calls (snd (memoizedFunction example_env answer example_options [] (loaded Map.empty 0))) = [[]]
   \<and> provider_calls (snd (memoizedFunction example_env answer example_options [] (loaded Map.empty 0))) =
     [PGet (JStr ''k'') (Some (Options None None)),
      PSet (JStr ''k'') (JNum 42) (JNum 0) (Some (Options None None))]
   \<and> fst (memoizedFunction example_env answer hour_options [JStr ''x''] (loaded Map.empty 0)) =
     Fulfilled (JNum 42)
   \<and> provider_calls (snd (memoizedFunction example_env answer hour_options [JStr ''x'']
        (loaded Map.empty 0))) =
     [PGet (JStr ''k_x'') (Some (Options None None)),
      PSet (JStr ''k_x'') (JNum 42) (JNum 3600) (Some (Options None None))]
   \<and> store (snd (memoizedFunction example_env answer hour_options [JStr ''x'']
        (loaded Map.empty 0))) (JStr ''k_x'') = Some (JNum 42)"
  using memoizedFunction_hit_or_miss [OF warm_lookup, where func = answer]
    memoizedFunction_hit_or_miss [OF cold_lookup, where func = answer
      and r = "Thenable (Fulfilled (JNum 42))" and a = 1 and v' = "JNum 42"]
    memoizedFunction_hit_or_miss [OF cold_lookup_hour, where func = answer
      and r = "Thenable (Fulfilled (JNum 42))" and a = 1 and v' = "JNum 42"]
  by (simp add: answer_def new_calls_def cacheKey_def example_options_def hour_options_def
        example_defs)

text \<open>
  C4. Without arguments the cache key is \<open>key\<close> itself; with arguments it is \<open>key\<close>,
  an underscore, and the md5 of the JSON encoding of the arguments (\<open>JSON.stringify\<close> is
  applied to the \<open>arguments\<close> object). The key is a function of \<open>key\<close> and the arguments
  alone. Every provider call made by the memoized function, by \<open>refresh\<close> and by \<open>clear\<close>
  carries this key; with a resolved provider the memoized function starts with \<open>get\<close> on
  it, \<open>refresh\<close> makes one \<open>set\<close> on it, and \<open>clear\<close> one \<open>delete\<close>.
\<close>

theorem cache_key_rule:
  "cacheKey env k [] = k
   \<and> (args \<noteq> [] \<longrightarrow> cacheKey env k args = k @ ''_'' @ md5 env (JSON_stringify env args))
   \<and> (\<forall>c \<in> set (new_calls w (snd (memoizedFunction env func opts args w))).
        pcall_key c = Some (JStr (cacheKey env (key opts) args)))
   \<and> (\<forall>c \<in> set (new_calls w (snd (memoizedFunction_refresh env func opts args w))).
        pcall_key c = Some (JStr (cacheKey env (key opts) args)))
   \<and> (\<forall>c \<in> set (new_calls w (snd (memoizedFunction_clear env opts args w))).
        pcall_key c = Some (JStr (cacheKey env (key opts) args)))
   \<and> (fst (getDefaultProvider env w) = Fulfilled P \<longrightarrow>
        take 1 (new_calls w (snd (memoizedFunction env func opts args w))) =
          [PGet (JStr (cacheKey env (key opts) args)) (Some (Options None (unserialize opts)))] \<and>
        (await (fst (func args (app w))) = Inr v \<longrightarrow>
           new_calls w (snd (memoizedFunction_refresh env func opts args w)) =
             [PSet (JStr (cacheKey env (key opts) args)) v (maxAge_or_default opts)
                (Some (Options (serialize opts) None))]) \<and>
        new_calls w (snd (memoizedFunction_clear env opts args w)) =
          [PDelete (JStr (cacheKey env (key opts) args))])"
proof (intro conjI impI)
  show "cacheKey env k [] = k"
    by (simp add: cacheKey_def)
  show "cacheKey env k args = k @ ''_'' @ md5 env (JSON_stringify env args)" if "args \<noteq> []"
    using that by (simp add: cacheKey_def)
  show "\<forall>c \<in> set (new_calls w (snd (memoizedFunction env func opts args w))).
        pcall_key c = Some (JStr (cacheKey env (key opts) args))"
    by (rule memoized_new_calls)
  show "\<forall>c \<in> set (new_calls w (snd (memoizedFunction_refresh env func opts args w))).
        pcall_key c = Some (JStr (cacheKey env (key opts) args))"
    by (rule refresh_new_calls)
  show "\<forall>c \<in> set (new_calls w (snd (memoizedFunction_clear env opts args w))).
        pcall_key c = Some (JStr (cacheKey env (key opts) args))"
    by (simp add: clear_new_calls split: promise.splits)
next
  assume P: "fst (getDefaultProvider env w) = Fulfilled P"
  let ?K = "JStr (cacheKey env (key opts) args)"
  show "new_calls w (snd (memoizedFunction_clear env opts args w)) = [PDelete ?K]"
    using P by (simp add: clear_new_calls)
  obtain got w1 where g: "cache_get env ?K (Some (Options None (unserialize opts))) w = (got, w1)"
    by (cases "cache_get env ?K (Some (Options None (unserialize opts))) w")
  have w1: "provider_calls w1 = provider_calls w @ [PGet ?K (Some (Options None (unserialize opts)))]"
    using cache_get_after(4) [OF g] P by simp
  have "\<exists>ys. provider_calls (snd (memoizedFunction env func opts args w)) =
      provider_calls w @ PGet ?K (Some (Options None (unserialize opts))) # ys"
    using g w1
    by (auto simp: memoizedFunction_def Let_def cache_set_after
          split: promise.splits prod.splits sum.splits)
  then show "take 1 (new_calls w (snd (memoizedFunction env func opts args w))) =
      [PGet ?K (Some (Options None (unserialize opts)))]"
    by (auto simp: new_calls_def)
next
  assume P: "fst (getDefaultProvider env w) = Fulfilled P"
    and v: "await (fst (func args (app w))) = Inr v"
  let ?K = "JStr (cacheKey env (key opts) args)"
  obtain r a where f: "func args (app w) = (r, a)"
    by (cases "func args (app w)")
  let ?w1 = "w\<lparr>app := a, func_calls := func_calls w @ [args]\<rparr>"
  have "fst (getDefaultProvider env ?w1) = Fulfilled P"
    using P by (simp add: getDefaultProvider_def Let_def split: option.splits)
  then show "new_calls w (snd (memoizedFunction_refresh env func opts args w)) =
      [PSet ?K v (maxAge_or_default opts) (Some (Options (serialize opts) None))]"
    using f v by (simp add: memoizedFunction_refresh_def Let_def cache_set_after new_calls_def)
qed

theorem cache_key_rule_witness:
  "cacheKey example_env ''k'' [] = ''k''
   \<and> cacheKey example_env ''k'' [JStr ''ab'', JStr ''c''] = ''k_cba''
   \<and> new_calls (loaded Map.empty 0)
        (snd (memoizedFunction_refresh example_env answer example_options [JStr ''ab'', JStr ''c'']
               (loaded Map.empty 0))) =
      [PSet (JStr ''k_cba'') (JNum 42) (JNum 0) (Some (Options None None))]
   \<and> new_calls (loaded Map.empty 0)
        (snd (memoizedFunction_clear example_env example_options [JStr ''ab'', JStr ''c'']
               (loaded Map.empty 0))) =
      [PDelete (JStr ''k_cba'')]
   \<and> take 1 (new_calls (loaded Map.empty 0)
        (snd (memoizedFunction example_env answer example_options [JStr ''ab'', JStr ''c'']
               (loaded Map.empty 0)))) =
      [PGet (JStr ''k_cba'') (Some (Options None None))]"
  using cache_key_rule [where env = example_env and k = "''k''" and args = "[JStr ''ab'', JStr ''c'']"
      and w = "loaded Map.empty 0" and func = answer and opts = example_options
      and P = memory_provider and v = "JNum 42"]
  by (simp add: cacheKey_def example_env_def example_options_def answer_def loaded_def
        getDefaultProvider_def getDefaultProviderType_def getProvider_def
        MEMCACHE_def REDIS_def MEMORY_def maxAge_or_default_def Let_def)

text \<open>
  C5. When the wrapped function fails (it throws, or its promise is rejected) on a cache
  miss of the memoized function, or in \<open>refresh\<close>, the call is rejected with that same
  error, and nothing is written: the provider calls and the store are those left by the
  lookup (for \<open>refresh\<close>, those before the call).
\<close>

theorem wrapped_function_error_propagates:
  "(cache_get env (JStr (cacheKey env (key opts) args))
       (Some (Options None (unserialize opts))) w = (Fulfilled JUndefined, w') \<longrightarrow>
    func args (app w') = (r, a) \<longrightarrow> await r = Inl err \<longrightarrow>
      fst (memoizedFunction env func opts args w) = Rejected err \<and>
      provider_calls (snd (memoizedFunction env func opts args w)) = provider_calls w' \<and>
      store (snd (memoizedFunction env func opts args w)) = store w' \<and>
      func_calls (snd (memoizedFunction env func opts args w)) = func_calls w @ [args])
   \<and> (func args (app w) = (r, a) \<longrightarrow> await r = Inl err \<longrightarrow>
      fst (memoizedFunction_refresh env func opts args w) = Rejected err \<and>
      provider_calls (snd (memoizedFunction_refresh env func opts args w)) = provider_calls w \<and>
      store (snd (memoizedFunction_refresh env func opts args w)) = store w \<and>
      func_calls (snd (memoizedFunction_refresh env func opts args w)) = func_calls w @ [args])"
proof (intro conjI impI)
  assume g: "cache_get env (JStr (cacheKey env (key opts) args))
       (Some (Options None (unserialize opts))) w = (Fulfilled JUndefined, w')"
    and f: "func args (app w') = (r, a)" and r: "await r = Inl err"
  have eq: "memoizedFunction env func opts args w =
      (Rejected err, w'\<lparr>app := a, func_calls := func_calls w' @ [args]\<rparr>)"
    using g f r by (simp add: memoizedFunction_def Let_def)
  show "fst (memoizedFunction env func opts args w) = Rejected err"
    "provider_calls (snd (memoizedFunction env func opts args w)) = provider_calls w'"
    "store (snd (memoizedFunction env func opts args w)) = store w'"
    by (simp_all add: eq)
  show "func_calls (snd (memoizedFunction env func opts args w)) = func_calls w @ [args]"
    using cache_get_after(2) [OF g] by (simp add: eq)
next
  assume f: "func args (app w) = (r, a)" and r: "await r = Inl err"
  then have eq: "memoizedFunction_refresh env func opts args w =
      (Rejected err, w\<lparr>app := a, func_calls := func_calls w @ [args]\<rparr>)"
    by (simp add: memoizedFunction_refresh_def Let_def)
  show "fst (memoizedFunction_refresh env func opts args w) = Rejected err"
    "provider_calls (snd (memoizedFunction_refresh env func opts args w)) = provider_calls w"
    "store (snd (memoizedFunction_refresh env func opts args w)) = store w"
    "func_calls (snd (memoizedFunction_refresh env func opts args w)) = func_calls w @ [args]"
    by (simp_all add: eq)
qed

theorem wrapped_function_error_propagates_witness:
  "fst (memoizedFunction example_env failing example_options [] (loaded Map.empty 0)) =
     Rejected (Error ''database is down'')
   \<and> provider_calls (snd (memoizedFunction example_env failing example_options [] (loaded Map.empty 0))) =
     [PGet (JStr ''k'') (Some (Options None None))]
   \<and> fst (memoizedFunction_refresh example_env failing example_options [] (loaded Map.empty 0)) =
     Rejected (Error ''database is down'')
   \<and> provider_calls (snd (memoizedFunction_refresh example_env failing example_options []
        (loaded Map.empty 0))) = []"
  using wrapped_function_error_propagates [where env = example_env and func = failing
      and opts = example_options and args = "[]" and w = "loaded Map.empty 0"
      and w' = "(loaded Map.empty 0)\<lparr>defaultProvider := Some (Fulfilled memory_provider),
       resolutions := [JStr ''MEMORY''],
       provider_calls := [PGet (JStr ''k'') (Some (Options None None))]\<rparr>"
      and r = "Thenable (Rejected (Error ''database is down''))" and a = 1
      and err = "Error ''database is down''"]
    cold_lookup
  by (simp add: failing_def loaded_def)

text \<open>
  C6. The default provider type follows the configuration in strict order: \<open>REDIS\<close> when
  \<open>redis.serverUrl\<close> is set (truthy), otherwise \<open>MEMCACHE\<close> when \<open>memcache.servers\<close> is
  set, otherwise \<open>MEMORY\<close>; and \<open>getProvider\<close> calls the factory of that type.
\<close>

theorem default_provider_type_precedence:
  "getDefaultProviderType env =
     (if truthy (config_get env ''redis.serverUrl'') then ''REDIS''
      else if truthy (config_get env ''memcache.servers'') then ''MEMCACHE''
      else ''MEMORY'')
   \<and> getProvider env (JStr (getDefaultProviderType env)) =
     async_return
       (if truthy (config_get env ''redis.serverUrl'') then makeRedisProvider env
        else if truthy (config_get env ''memcache.servers'')
          then makeMemcacheProvider env (config_get env ''memcache'')
        else makeMemoryProvider env 1000)"
  by (simp add: getDefaultProviderType_def getProvider_def MEMCACHE_def REDIS_def MEMORY_def)

text \<open>
  C7. The default provider is resolved once: the first facade operation calls
  \<open>getProvider\<close> and keeps the promise it returns in \<open>defaultProvider\<close>; after any further
  facade operations the variable still holds that promise, \<open>getDefaultProvider\<close> returns it,
  and \<open>getProvider\<close> has been called exactly once.
\<close>

theorem default_provider_singleton:
  assumes "defaultProvider w = None" and "resolutions w = []"
  shows "let p = getProvider env (JStr (getDefaultProviderType env));
             w1 = snd (facade env op w);
             w' = run env rest w1
         in defaultProvider w1 = Some p \<and> defaultProvider w' = Some p \<and>
            fst (getDefaultProvider env w') = p \<and>
            resolutions w' = [JStr (getDefaultProviderType env)]"
proof -
  let ?p = "getProvider env (JStr (getDefaultProviderType env))"
  let ?w1 = "snd (facade env op w)"
  have a: "defaultProvider ?w1 = Some ?p"
    using assms(1) by (simp add: facade_defaultProvider)
  have b: "resolutions ?w1 = [JStr (getDefaultProviderType env)]"
    using assms by (simp add: facade_resolutions)
  have c: "defaultProvider (run env rest ?w1) = Some ?p \<and>
           resolutions (run env rest ?w1) = resolutions ?w1"
    using a by (rule run_resolved)
  show ?thesis
    using a b c by (simp add: Let_def getDefaultProvider_set)
qed

theorem default_provider_singleton_witness:
  "resolutions (run example_env [Set (JStr ''k'') (JNum 1) (JNum 0) None, Get (JStr ''k'') None]
      (snd (facade example_env (Get (JStr ''k'') None) (loaded Map.empty 0)))) = [JStr ''MEMORY'']
   \<and> defaultProvider (run example_env [Set (JStr ''k'') (JNum 1) (JNum 0) None, Get (JStr ''k'') None]
      (snd (facade example_env (Get (JStr ''k'') None) (loaded Map.empty 0)))) = Some (Fulfilled memory_provider)"
  using default_provider_singleton [of "loaded Map.empty 0" example_env "Get (JStr ''k'') None"
      "[Set (JStr ''k'') (JNum 1) (JNum 0) None, Get (JStr ''k'') None]"]
  by (simp add: loaded_def Let_def getDefaultProviderType_def example_env_def MEMORY_def
        getProvider_def MEMCACHE_def REDIS_def)

text \<open>
  C8, as amended. \<open>purgeAllCachesForAccount(account)\<close> starts the page purge for
  \<open>/<slug>\<close>. When that call does not throw synchronously, the GraphQL purge for the slug
  and the invalidation of the contributors cache for the account's id are started as well,
  whatever fails asynchronously in any of the three (a rejected promise of the page purge,
  of the GraphQL purge, or of the invalidation). When the page purge throws synchronously,
  the call is rejected with that error and the other two steps are not started.
\<close>

theorem purgeAllCachesForAccount_steps:
  "(\<not> throws_synchronously (fst (purgeCacheForPage env (''/'' @ account_slug acc) (app w))) \<longrightarrow>
      purge_steps (snd (purgeAllCachesForAccount env acc w)) =
        purge_steps w @ [PurgeCacheForPage (''/'' @ account_slug acc),
                         PurgeGraphqlCacheForCollective (account_slug acc),
                         InvalidateContributorsCache (account_id acc)])
   \<and> (fst (purgeCacheForPage env (''/'' @ account_slug acc) (app w)) = Throws err \<longrightarrow>
      fst (purgeAllCachesForAccount env acc w) = Rejected err \<and>
      purge_steps (snd (purgeAllCachesForAccount env acc w)) =
        purge_steps w @ [PurgeCacheForPage (''/'' @ account_slug acc)])"
proof (intro conjI impI)
  assume n: "\<not> throws_synchronously (fst (purgeCacheForPage env (''/'' @ account_slug acc) (app w)))"
  obtain r a where p: "purgeCacheForPage env (''/'' @ account_slug acc) (app w) = (r, a)"
    by (cases "purgeCacheForPage env (''/'' @ account_slug acc) (app w)")
  with n have "dropped r = None"
    by (cases r) simp_all
  then show "purge_steps (snd (purgeAllCachesForAccount env acc w)) =
        purge_steps w @ [PurgeCacheForPage (''/'' @ account_slug acc),
                         PurgeGraphqlCacheForCollective (account_slug acc),
                         InvalidateContributorsCache (account_id acc)]"
    using p
    by (simp add: purgeAllCachesForAccount_def purgeCacheForCollective_def Let_def
          purgeGraphqlCacheForCollective_frame split: prod.splits sum.splits)
next
  assume "fst (purgeCacheForPage env (''/'' @ account_slug acc) (app w)) = Throws err"
  then obtain a where p: "purgeCacheForPage env (''/'' @ account_slug acc) (app w) = (Throws err, a)"
    by (cases "purgeCacheForPage env (''/'' @ account_slug acc) (app w)") simp
  show "fst (purgeAllCachesForAccount env acc w) = Rejected err"
    "purge_steps (snd (purgeAllCachesForAccount env acc w)) =
        purge_steps w @ [PurgeCacheForPage (''/'' @ account_slug acc)]"
    using p by (simp_all add: purgeAllCachesForAccount_def purgeCacheForCollective_def Let_def)
qed

theorem purgeAllCachesForAccount_steps_witness:
  "purge_steps (snd (purgeAllCachesForAccount failing_env acme (loaded Map.empty 0))) =
     [PurgeCacheForPage ''/acme'', PurgeGraphqlCacheForCollective ''acme'',
      InvalidateContributorsCache (JNum 7)]
   \<and> purge_steps (snd (purgeAllCachesForAccount throwing_env acme (loaded Map.empty 0))) =
     [PurgeCacheForPage ''/acme'']"
  using purgeAllCachesForAccount_steps [of failing_env acme "loaded Map.empty 0"]
    purgeAllCachesForAccount_steps [of throwing_env acme "loaded Map.empty 0" "TypeError ''path is not valid''"]
  by (simp add: failing_env_def throwing_env_def redis_env_def example_env_def acme_def loaded_def)

text \<open>
  C8, as claimed (a failure in any step never keeps the other steps from being attempted),
  fails: when \<open>purgeCacheForPage\<close> throws synchronously, only the page purge is attempted,
  and the cache is not touched.
\<close>

theorem purgeAllCachesForAccount_counterexample:
  "fst (purgeAllCachesForAccount throwing_env acme (loaded acme_store 0)) =
     Rejected (TypeError ''path is not valid'')
   \<and> purge_steps (snd (purgeAllCachesForAccount throwing_env acme (loaded acme_store 0))) =
     [PurgeCacheForPage ''/acme'']
   \<and> provider_calls (snd (purgeAllCachesForAccount throwing_env acme (loaded acme_store 0))) = []"
  by (simp add: purgeAllCachesForAccount_def purgeCacheForCollective_def throwing_env_def
        example_env_def acme_def loaded_def Let_def)

text \<open>
  C9, as amended. For a provider type other than the three supported strings,
  \<open>getProvider\<close> fails with the error \<open>Unsupported cache provider: <type>\<close>. The function
  is \<open>async\<close>: the error is the rejection of the promise it returns, not a synchronous
  throw. \<open>getProvider\<close> neither catches nor logs it (it has no access to the log).
\<close>

theorem getProvider_unsupported_rejects:
  assumes "providerType \<noteq> JStr ''MEMCACHE''" and "providerType \<noteq> JStr ''REDIS''"
    and "providerType \<noteq> JStr ''MEMORY''"
  shows "getProvider env providerType =
           Rejected (Error (''Unsupported cache provider: '' @ toString env providerType))
         \<and> \<not> throws_synchronously (call_async (getProvider env providerType))"
  using assms by (simp add: getProvider_def MEMCACHE_def REDIS_def MEMORY_def call_async_def)

theorem getProvider_unsupported_rejects_witness:
  "getProvider example_env JUndefined = Rejected (Error ''Unsupported cache provider: undefined'')"
  using getProvider_unsupported_rejects [of JUndefined example_env]
  by (simp add: example_env_def)

text \<open>
  C9, as claimed (the error is thrown synchronously), fails: the call \<open>getProvider('FOO')\<close>
  returns a rejected promise.
\<close>

theorem getProvider_unsupported_counterexample:
  "\<not> throws_synchronously (call_async (getProvider example_env (JStr ''FOO'')))
   \<and> getProvider example_env (JStr ''FOO'') = Rejected (Error ''Unsupported cache provider: FOO'')"
  by (simp add: getProvider_def MEMCACHE_def REDIS_def MEMORY_def call_async_def example_env_def)

text \<open>
  C10. A result \<open>undefined\<close> of the wrapped function is never effectively cached. Take a
  resolved provider for which a \<open>get\<close> that follows a \<open>set\<close> of \<open>undefined\<close> under the
  fingerprinted key yields \<open>undefined\<close> (what was stored, or nothing), a wrapped function
  that yields \<open>undefined\<close> for the given arguments, and a first lookup that misses. Then
  each of \<open>n\<close> calls of the memoized function in a row invokes the wrapped function.
\<close>

theorem undefined_result_never_cached:
  assumes "fst (getDefaultProvider env w) = Fulfilled P"
    and "\<forall>s. fst (provider_get P (JStr (cacheKey env (key opts) args))
                    (Some (Options None (unserialize opts)))
                    (snd (provider_set P (JStr (cacheKey env (key opts) args)) JUndefined
                            (maxAge_or_default opts) (Some (Options (serialize opts) None)) s)))
              \<in> {Plain JUndefined, Thenable (Fulfilled JUndefined)}"
    and "\<forall>a. await (fst (func args a)) = Inr JUndefined"
    and "fst (cache_get env (JStr (cacheKey env (key opts) args))
                   (Some (Options None (unserialize opts))) w) = Fulfilled JUndefined"
  shows "func_calls (call_times n env func opts args w) = func_calls w @ replicate n args"
  using assms
proof (induction n arbitrary: w)
  case 0
  then show ?case by simp
next
  case (Suc n)
  let ?w' = "snd (memoizedFunction env func opts args w)"
  note step = undefined_result_step
    [where env = env and func = func and opts = opts and args = args and P = P, OF Suc.prems]
  have "func_calls (call_times n env func opts args ?w') = func_calls ?w' @ replicate n args"
    using step(2) Suc.prems(2) Suc.prems(3) step(3) by (rule Suc.IH)
  then show ?case
    using step(1) by (simp add: replicate_app_Cons_same)
qed

theorem undefined_result_never_cached_witness:
  "func_calls (call_times 3 example_env nothing example_options [JStr ''x''] (loaded Map.empty 0)) =
     [[JStr ''x''], [JStr ''x''], [JStr ''x'']]"
proof -
  have "func_calls (call_times 3 example_env nothing example_options [JStr ''x''] (loaded Map.empty 0)) =
     func_calls (loaded Map.empty 0 :: (jsval \<rightharpoonup> jsval, unit, nat) world) @ replicate 3 [JStr ''x'']"
  proof (rule undefined_result_never_cached
      [where P = memory_provider and func = nothing and env = example_env
         and opts = example_options and args = "[JStr ''x'']"])
    show "fst (getDefaultProvider example_env (loaded Map.empty 0)) = Fulfilled memory_provider"
      by (simp add: getDefaultProvider_def getDefaultProviderType_def getProvider_def
            example_env_def loaded_def MEMCACHE_def REDIS_def MEMORY_def Let_def)
    show "\<forall>s. fst (provider_get memory_provider (JStr (cacheKey example_env (key example_options) [JStr ''x'']))
                    (Some (Options None (unserialize example_options)))
                    (snd (provider_set memory_provider
                            (JStr (cacheKey example_env (key example_options) [JStr ''x''])) JUndefined
                            (maxAge_or_default example_options)
                            (Some (Options (serialize example_options) None)) s)))
              \<in> {Plain JUndefined, Thenable (Fulfilled JUndefined)}"
      by (simp add: memory_provider_def)
    show "\<forall>a. await (fst (nothing [JStr ''x''] a)) = Inr JUndefined"
      by (simp add: nothing_def)
    show "fst (cache_get example_env (JStr (cacheKey example_env (key example_options) [JStr ''x'']))
                   (Some (Options None (unserialize example_options))) (loaded Map.empty 0)) =
          Fulfilled JUndefined"
      by (simp add: example_defs)
  qed
  then show ?thesis
    by (simp add: loaded_def numeral_3_eq_3)
qed

end
